theory Spec2Isabelle
  imports Main
begin

section \<open>JavaScript values and exceptions\<close>

text \<open>
  The values that cross the bridge: event names, payloads and parsed response bodies.
  Numbers are whole milliseconds and counts in this code, so they are integers here.
\<close>

datatype js_value =
    JUndefined
  | JNull
  | JBool bool
  | JNumber int
  | JString string
  | JObject "(string \<times> js_value) list"

text \<open>What a \<open>throw\<close> or a rejected promise carries.\<close>

datatype js_error =
    JsError string
  | JsTypeError string
  | JsSyntaxError string

section \<open>The message bridge (NuiProvider)\<close>

subsection \<open>The accessor \<open>useNui\<close>\<close>

text \<open>
  \<open>createContext(null)\<close>: outside a provider \<open>useContext\<close> yields \<open>null\<close>, inside it
  yields the provider's value (an object, hence truthy).
  \<^verbatim>\<open>
  const context = useContext(NuiContext)
  if (!context) throw new Error('useNui must be used within NuiProvider')
  return context
  \<close>
\<close>

definition useNui :: "'ctx option \<Rightarrow> js_error + 'ctx" where
  "useNui context =
     (case context of
        None \<Rightarrow> Inl (JsError ''useNui must be used within NuiProvider'')
      | Some c \<Rightarrow> Inr c)"

subsection \<open>The platform under \<open>sendMessage\<close>\<close>

text \<open>The request handed to \<open>fetch\<close>.\<close>

record request =
  url :: string
  http_method :: string
  headers :: "(string \<times> string) list"
  body :: string

text \<open>
  How \<open>fetch\<close> settles: it rejects (network error), or it resolves with a response that
  has a status and a body. A response can have no body at all (\<open>None\<close>: a null body, as
  with status 204).
\<close>

datatype fetch_outcome =
    Rejected js_error
  | Responded nat "string option"

text \<open>
  A response object. Its body is a stream that can be read once: \<open>disturbed\<close> is set
  by the first read.
\<close>

record response =
  status :: nat
  payload :: "string option"
  disturbed :: bool

definition fresh_response :: "nat \<Rightarrow> string option \<Rightarrow> response" where
  "fresh_response s b = \<lparr>status = s, payload = b, disturbed = False\<rparr>"

text \<open>\<open>resp.ok\<close>: the status is in the range 200 to 299.\<close>

definition response_ok :: "response \<Rightarrow> bool" where
  "response_ok r = (200 \<le> status r \<and> status r \<le> 299)"

text \<open>
  A body is unusable when it is not null and has been read already; \<open>json()\<close> and
  \<open>text()\<close> reject with a \<open>TypeError\<close> on an unusable body, and otherwise read all
  of it (a null body reads as the empty string), which disturbs the stream.
\<close>

definition unusable :: "response \<Rightarrow> bool" where
  "unusable r = (payload r \<noteq> None \<and> disturbed r)"

definition read_all :: "response \<Rightarrow> string" where
  "read_all r = (case payload r of None \<Rightarrow> [] | Some s \<Rightarrow> s)"

definition response_json ::
    "(string \<Rightarrow> js_value option) \<Rightarrow> response \<Rightarrow> (js_error + js_value) \<times> response" where
  "response_json parse r =
     (if unusable r then (Inl (JsTypeError ''body stream already read''), r)
      else
        (case parse (read_all r) of
           None \<Rightarrow> Inl (JsSyntaxError ''Unexpected token in JSON'')
         | Some v \<Rightarrow> Inr v,
         r\<lparr>disturbed := True\<rparr>))"

definition response_text :: "response \<Rightarrow> (js_error + js_value) \<times> response" where
  "response_text r =
     (if unusable r then (Inl (JsTypeError ''body stream already read''), r)
      else (Inr (JString (read_all r)), r\<lparr>disturbed := True\<rparr>))"

text \<open>
  What the page is given by its host: \<open>window.GetParentResourceName\<close> (present inside
  the game, absent in a plain browser; \<open>Some n\<close> is a function returning \<open>n\<close>), the JSON
  built-ins, and the network behind \<open>fetch\<close>.
\<close>

record environment =
  GetParentResourceName :: "string option"
  JSON_stringify :: "js_value \<Rightarrow> string"
  JSON_parse :: "string \<Rightarrow> js_value option"
  fetch :: "request \<Rightarrow> fetch_outcome"

subsection \<open>\<open>sendMessage\<close>\<close>

datatype console_entry =
    FailedToSend string nat
  | ErrorSending string js_error

text \<open>
  What a call of \<open>sendMessage\<close> does: how its promise settles (\<open>Inl\<close>: it rejects,
  \<open>Inr\<close>: it resolves with that value), the requests it hands to \<open>fetch\<close>, and what
  it writes with \<open>console.error\<close>.
\<close>

record send_result =
  outcome :: "js_error + js_value"
  fetched :: "request list"
  logged :: "console_entry list"

text \<open>
  \<^verbatim>\<open>
  const eventName = typeof event === 'string' ? event : 'unknownEvent'
  \<close>
\<close>

definition eventName_of :: "js_value \<Rightarrow> string" where
  "eventName_of event = (case event of JString s \<Rightarrow> s | _ \<Rightarrow> ''unknownEvent'')"

text \<open>
  \<^verbatim>\<open>
  const resourceName = window.GetParentResourceName
    ? window.GetParentResourceName() : 'inkwell-react-template'
  \<close>
\<close>

definition resourceName_of :: "environment \<Rightarrow> string" where
  "resourceName_of env =
     (case GetParentResourceName env of
        Some n \<Rightarrow> n
      | None \<Rightarrow> ''inkwell-react-template'')"

text \<open>
  The arguments of the \<open>fetch\<close> call. The parameter \<open>data\<close> defaults to \<open>{}\<close> when the
  caller passes none (\<open>undefined\<close>).
\<close>

definition build_request :: "environment \<Rightarrow> js_value \<Rightarrow> js_value \<Rightarrow> request" where
  "build_request env event data0 =
     (let data = (if data0 = JUndefined then JObject [] else data0)
      in \<lparr>url = ''https://'' @ resourceName_of env @ ''/'' @ eventName_of event,
          http_method = ''POST'',
          headers = [(''Content-Type'', ''application/json; charset=UTF-8'')],
          body = JSON_stringify env data\<rparr>)"

text \<open>
  \<^verbatim>\<open>
  try {
    const resp = await fetch(...)
    if (!resp.ok) { console.error(...); return null }
    try { return await resp.json() } catch (e) { return await resp.text() }
  } catch (err) { console.error(...); return null }
  \<close>
  The inner \<open>catch\<close> block lies inside the outer \<open>try\<close>: a rejection of \<open>resp.text()\<close>
  is caught by the outer \<open>catch\<close>.
\<close>

definition sendMessage :: "environment \<Rightarrow> js_value \<Rightarrow> js_value \<Rightarrow> send_result" where
  "sendMessage env event data0 =
     (let eventName = eventName_of event;
          req = build_request env event data0
      in case fetch env req of
           Rejected err \<Rightarrow>
             \<lparr>outcome = Inr JNull, fetched = [req], logged = [ErrorSending eventName err]\<rparr>
         | Responded s b \<Rightarrow>
             (let resp = fresh_response s b
              in if \<not> response_ok resp
                 then \<lparr>outcome = Inr JNull, fetched = [req],
                       logged = [FailedToSend eventName (status resp)]\<rparr>
                 else
                   (case response_json (JSON_parse env) resp of
                      (Inr v, _) \<Rightarrow> \<lparr>outcome = Inr v, fetched = [req], logged = []\<rparr>
                    | (Inl e, resp') \<Rightarrow>
                        (case response_text resp' of
                           (Inr t, _) \<Rightarrow> \<lparr>outcome = Inr t, fetched = [req], logged = []\<rparr>
                         | (Inl err, _) \<Rightarrow>
                             \<lparr>outcome = Inr JNull, fetched = [req],
                              logged = [ErrorSending eventName err]\<rparr>))))"

section \<open>The rate limit coordinator (useRateLimit)\<close>

subsection \<open>State\<close>

text \<open>
  The arguments of one hook instance, \<open>useRateLimit(id, cooldown, messageDuration)\<close>;
  times and durations are milliseconds.
\<close>

record config =
  id_hook :: string
  cooldown :: int
  messageDuration :: int

text \<open>
  What the hook does to the outside, in order: a call of the bridge's \<open>sendMessage\<close>
  with its event and payload, and a call of the caller's \<open>actionFn\<close>.
\<close>

datatype 'f effect =
    HostCall string js_value
  | ActionInvoked 'f

text \<open>
  Everything the hook reads and writes: its two \<open>useState\<close> cells, its \<open>useRef\<close>
  cell (a timer handle or \<open>null\<close>), the two process-wide stores, the timers it has set
  and that have neither fired nor been cleared (handle and due time), the next handle
  \<open>setTimeout\<close> will return, the callbacks of the \<open>performAction\<close> calls suspended at
  their \<open>await\<close>, and the effects so far.
\<close>

record 'f hook_state =
  isRateLimited :: bool
  rateLimitMessage :: "string option"
  messageTimeoutRef :: "nat option"
  lastActionTimes :: "string \<rightharpoonup> int"
  rateLimitResponses :: "string \<rightharpoonup> bool"
  timers :: "(nat \<times> int) list"
  next_handle :: nat
  awaiting :: "'f list"
  trace :: "'f effect list"

subsection \<open>Timers\<close>

text \<open>
  \<open>setTimeout\<close> returns a fresh handle and schedules the callback \<open>delay\<close> milliseconds
  from now; \<open>clearTimeout\<close> removes the timer with that handle, if it is still there.
  Every timer of this hook has the same callback, \<open>setRateLimitMessage(null)\<close>.
\<close>

definition setTimeout :: "int \<Rightarrow> int \<Rightarrow> 'f hook_state \<Rightarrow> nat \<times> 'f hook_state" where
  "setTimeout now delay st =
     (next_handle st,
      st\<lparr>timers := timers st @ [(next_handle st, now + delay)],
         next_handle := Suc (next_handle st)\<rparr>)"

definition clearTimeout :: "nat \<Rightarrow> 'f hook_state \<Rightarrow> 'f hook_state" where
  "clearTimeout h st = st\<lparr>timers := filter (\<lambda>(h', due). h' \<noteq> h) (timers st)\<rparr>"

text \<open>
  \<^verbatim>\<open>if (messageTimeoutRef.current) clearTimeout(messageTimeoutRef.current)\<close>
  The test is truthiness: \<open>null\<close> and the number 0 skip the call.
\<close>

definition clearMessageTimeout :: "'f hook_state \<Rightarrow> 'f hook_state" where
  "clearMessageTimeout st =
     (case messageTimeoutRef st of
        None \<Rightarrow> st
      | Some h \<Rightarrow> if h \<noteq> 0 then clearTimeout h st else st)"

text \<open>
  The clock reaches \<open>now\<close>: every timer that is due fires, and its callback clears the
  message.
\<close>

definition tick :: "int \<Rightarrow> 'f hook_state \<Rightarrow> 'f hook_state" where
  "tick now st =
     (if filter (\<lambda>(h, due). due \<le> now) (timers st) = [] then st
      else st\<lparr>timers := filter (\<lambda>(h, due). \<not> due \<le> now) (timers st),
              rateLimitMessage := None\<rparr>)"

subsection \<open>The store of last action times\<close>

text \<open>
  Modelled from the spec: the module \<open>stores/rateLimitStore\<close> (\<open>getLastActionTime\<close>,
  \<open>setLastActionTime\<close>) is not among the sources. The spec has it as a mapping from
  action id to timestamp with no eviction, an entry being overwritten by the next one
  for the same id; an id with no entry reads as \<open>undefined\<close> (\<open>None\<close>).
\<close>

definition getLastActionTime :: "'f hook_state \<Rightarrow> string \<Rightarrow> int option" where
  "getLastActionTime st k = lastActionTimes st k"

definition setLastActionTime :: "string \<Rightarrow> int \<Rightarrow> 'f hook_state \<Rightarrow> 'f hook_state" where
  "setLastActionTime k t st = st\<lparr>lastActionTimes := (lastActionTimes st)(k \<mapsto> t)\<rparr>"

text \<open>
  Modelled from the spec: the store \<open>stores/nui\<close> that receives the host's replies is
  not among the sources. The spec has its response map hold at most one entry per id,
  a later reply overwriting the earlier one.
\<close>

definition storeResponse :: "string \<Rightarrow> bool \<Rightarrow> 'f hook_state \<Rightarrow> 'f hook_state" where
  "storeResponse k allowed st =
     st\<lparr>rateLimitResponses := (rateLimitResponses st)(k \<mapsto> allowed)\<rparr>"

subsection \<open>The hook's functions\<close>

text \<open>\<^verbatim>\<open>`Action [${id}] is rate limited. Please wait.`\<close>\<close>

definition rate_limit_text :: "string \<Rightarrow> string" where
  "rate_limit_text k = ''Action ['' @ k @ ''] is rate limited. Please wait.''"

text \<open>
  \<^verbatim>\<open>
  setRateLimitMessage(msg)
  if (messageTimeoutRef.current) clearTimeout(messageTimeoutRef.current)
  messageTimeoutRef.current = setTimeout(() => { setRateLimitMessage(null) }, messageDuration)
  \<close>
\<close>

definition showMessage :: "config \<Rightarrow> int \<Rightarrow> string \<Rightarrow> 'f hook_state \<Rightarrow> 'f hook_state" where
  "showMessage cfg now msg st =
     (let st1 = clearMessageTimeout (st\<lparr>rateLimitMessage := Some msg\<rparr>);
          (h, st2) = setTimeout now (messageDuration cfg) st1
      in st2\<lparr>messageTimeoutRef := Some h\<rparr>)"

text \<open>
  The effect that handles the host's reply (it runs at time \<open>now\<close>):
  \<^verbatim>\<open>
  const allowed = rateLimitResponses.get(id)
  if (allowed !== undefined) {
    setIsRateLimited(!allowed)
    if (allowed) {
      setLastActionTime(id, Date.now())
      setRateLimitMessage(null)
      if (messageTimeoutRef.current) clearTimeout(messageTimeoutRef.current)
    } else {
      showMessage(`Action [${id}] is rate limited. Please wait.`)
    }
  }
  \<close>
\<close>

definition responseEffect :: "config \<Rightarrow> int \<Rightarrow> 'f hook_state \<Rightarrow> 'f hook_state" where
  "responseEffect cfg now st =
     (case rateLimitResponses st (id_hook cfg) of
        None \<Rightarrow> st
      | Some allowed \<Rightarrow>
          (let st1 = st\<lparr>isRateLimited := \<not> allowed\<rparr>
           in if allowed
              then clearMessageTimeout
                     ((setLastActionTime (id_hook cfg) now st1)\<lparr>rateLimitMessage := None\<rparr>)
              else showMessage cfg now (rate_limit_text (id_hook cfg)) st1))"

text \<open>
  \<^verbatim>\<open>now - lastActionTime < cooldown\<close>, where \<open>lastActionTime\<close> is what the store
  returned: with \<open>undefined\<close> the difference is \<open>NaN\<close> and the comparison is false.
\<close>

definition within_cooldown :: "int option \<Rightarrow> int \<Rightarrow> int \<Rightarrow> bool" where
  "within_cooldown lastActionTime now cd =
     (case lastActionTime of None \<Rightarrow> False | Some t \<Rightarrow> now - t < cd)"

text \<open>\<^verbatim>\<open>{ actionId: id, cooldown }\<close>\<close>

definition checkRateLimit_payload :: "config \<Rightarrow> js_value" where
  "checkRateLimit_payload cfg =
     JObject [(''actionId'', JString (id_hook cfg)), (''cooldown'', JNumber (cooldown cfg))]"

text \<open>
  \<open>performAction(actionFn)\<close>, called at time \<open>now\<close>, up to its \<open>await\<close>:
  \<^verbatim>\<open>
  const lastActionTime = getLastActionTime(id)
  const now = Date.now()
  if (now - lastActionTime < cooldown) {
    showMessage(`Action [${id}] is rate limited. Please wait.`)
    return
  }
  setRateLimitMessage(null)
  if (messageTimeoutRef.current) clearTimeout(messageTimeoutRef.current)
  await sendMessage('checkRateLimit', { actionId: id, cooldown })
  \<close>
  The call of \<open>sendMessage\<close> is made before the function suspends; the suspended call
  is kept with its callback.
\<close>

definition performAction :: "config \<Rightarrow> 'f \<Rightarrow> int \<Rightarrow> 'f hook_state \<Rightarrow> 'f hook_state" where
  "performAction cfg actionFn now st =
     (if within_cooldown (getLastActionTime st (id_hook cfg)) now (cooldown cfg)
      then showMessage cfg now (rate_limit_text (id_hook cfg)) st
      else
        (let st1 = clearMessageTimeout (st\<lparr>rateLimitMessage := None\<rparr>)
         in st1\<lparr>trace := trace st1 @ [HostCall ''checkRateLimit'' (checkRateLimit_payload cfg)],
                awaiting := awaiting st1 @ [actionFn]\<rparr>))"

text \<open>
  The rest of \<open>performAction\<close>, when the promise of \<open>sendMessage\<close> has settled as \<open>r\<close>
  for the \<open>k\<close>-th suspended call: a rejection leaves the function at the \<open>await\<close>, a
  value (which is not looked at) lets it go on to
  \<^verbatim>\<open>actionFn()\<close>
\<close>

definition performAction_resume ::
    "nat \<Rightarrow> js_error + js_value \<Rightarrow> 'f hook_state \<Rightarrow> 'f hook_state" where
  "performAction_resume k r st =
     (if k < length (awaiting st)
      then
        (let actionFn = awaiting st ! k;
             st1 = st\<lparr>awaiting := take k (awaiting st) @ drop (Suc k) (awaiting st)\<rparr>
         in case r of
              Inl e \<Rightarrow> st1
            | Inr v \<Rightarrow> st1\<lparr>trace := trace st1 @ [ActionInvoked actionFn]\<rparr>)
      else st)"

text \<open>
  The cleanup of the second effect, run when the component unmounts:
  \<^verbatim>\<open>if (messageTimeoutRef.current) { clearTimeout(messageTimeoutRef.current) }\<close>
\<close>

definition unmount :: "'f hook_state \<Rightarrow> 'f hook_state" where
  "unmount st = clearMessageTimeout st"

text \<open>
  The state after the first render: \<open>useState(false)\<close>, \<open>useState(null)\<close>,
  \<open>useRef(null)\<close>, the stores as they are at that time, no timer yet. Timer handles are
  positive numbers.
\<close>

definition mount :: "(string \<rightharpoonup> int) \<Rightarrow> (string \<rightharpoonup> bool) \<Rightarrow> nat \<Rightarrow> 'f hook_state" where
  "mount stamps responses n =
     \<lparr>isRateLimited = False, rateLimitMessage = None, messageTimeoutRef = None,
      lastActionTimes = stamps, rateLimitResponses = responses, timers = [],
      next_handle = Suc n, awaiting = [], trace = []\<rparr>"

subsection \<open>Runs of one hook instance\<close>

text \<open>
  What can happen to a mounted hook, one event at a time (the UI event loop is single
  threaded): a call of \<open>performAction\<close>, the settling of a \<open>sendMessage\<close> promise, a reply
  of the host written to the response map, a run of the response effect, the clock
  reaching a time, and the unmount.
\<close>

datatype 'f event =
    PerformAction 'f int
  | SendSettled nat "js_error + js_value"
  | StoreResponse string bool
  | ResponseEffect int
  | Tick int
  | Unmount

fun step :: "config \<Rightarrow> 'f event \<Rightarrow> 'f hook_state \<Rightarrow> 'f hook_state" where
  "step cfg (PerformAction actionFn now) st = performAction cfg actionFn now st"
| "step cfg (SendSettled k r) st = performAction_resume k r st"
| "step cfg (StoreResponse k allowed) st = storeResponse k allowed st"
| "step cfg (ResponseEffect now) st = responseEffect cfg now st"
| "step cfg (Tick now) st = tick now st"
| "step cfg Unmount st = unmount st"

fun run :: "config \<Rightarrow> 'f event list \<Rightarrow> 'f hook_state \<Rightarrow> 'f hook_state" where
  "run cfg [] st = st"
| "run cfg (e # es) st = run cfg es (step cfg e st)"

text \<open>
  The timers of a hook instance in any state it can reach: none, or the one whose
  handle the ref holds.
\<close>

definition one_timer :: "'f hook_state \<Rightarrow> bool" where
  "one_timer st =
     (0 < next_handle st \<and>
      (case timers st of
         [] \<Rightarrow> True
       | [(h, due)] \<Rightarrow> messageTimeoutRef st = Some h \<and> h \<noteq> 0
       | _ \<Rightarrow> False))"

text \<open>
  The first line of the hook is \<open>const { sendMessage } = useNui()\<close>: without a provider
  the first render fails there, before any state exists.
\<close>

definition useRateLimit ::
    "'ctx option \<Rightarrow> (string \<rightharpoonup> int) \<Rightarrow> (string \<rightharpoonup> bool) \<Rightarrow> nat \<Rightarrow> js_error + 'f hook_state" where
  "useRateLimit context stamps responses n =
     (case useNui context of
        Inl e \<Rightarrow> Inl e
      | Inr ctx \<Rightarrow> Inr (mount stamps responses n))"

subsection \<open>Kinds of events\<close>

text \<open>Events of the host's side and of the clock: they neither call nor resume \<open>performAction\<close>.\<close>

definition host_side :: "'f event \<Rightarrow> bool" where
  "host_side e =
     (case e of PerformAction f t \<Rightarrow> False | SendSettled k r \<Rightarrow> False | _ \<Rightarrow> True)"

text \<open>
  Events in which no code of the hook displays or clears a message: a settled promise, a
  write to the response map, the passing of time.
\<close>

definition no_display :: "'f event \<Rightarrow> bool" where
  "no_display e =
     (case e of
        SendSettled k r \<Rightarrow> True
      | StoreResponse k a \<Rightarrow> True
      | Tick t \<Rightarrow> True
      | _ \<Rightarrow> False)"

text \<open>The clock has been seen at or after \<open>T\<close>.\<close>

definition clock_reached :: "int \<Rightarrow> 'f event list \<Rightarrow> bool" where
  "clock_reached T es = list_ex (\<lambda>e. case e of Tick t \<Rightarrow> T \<le> t | _ \<Rightarrow> False) es"

text \<open>
  No run of the response effect in \<open>es\<close>, started in \<open>st\<close>, finds \<open>allowed = true\<close> for the
  hook's id: no allowed reply for that id is processed.
\<close>

fun no_allowed_reply :: "config \<Rightarrow> 'f event list \<Rightarrow> 'f hook_state \<Rightarrow> bool" where
  "no_allowed_reply cfg [] st = True"
| "no_allowed_reply cfg (e # es) st =
     ((case e of
         ResponseEffect now \<Rightarrow> rateLimitResponses st (id_hook cfg) \<noteq> Some True
       | _ \<Rightarrow> True)
      \<and> no_allowed_reply cfg es (step cfg e st))"

definition is_ResponseEffect :: "'f event \<Rightarrow> bool" where
  "is_ResponseEffect e = (case e of ResponseEffect t \<Rightarrow> True | _ \<Rightarrow> False)"

subsection \<open>Concrete instances\<close>

text \<open>The hook of the spec's scenarios: \<open>useRateLimit('open_stash', 5000)\<close>.\<close>

definition stash :: config where
  "stash = \<lparr>id_hook = ''open_stash'', cooldown = 5000, messageDuration = 2000\<rparr>"

text \<open>
  A host that answers every call with status 200 and the body \<open>ok\<close>, which is not JSON.
  Of \<open>JSON.parse\<close> only its value on the bodies that occur matters here.
\<close>

definition text_host :: environment where
  "text_host =
     \<lparr>GetParentResourceName = Some ''my-resource'',
      JSON_stringify = (\<lambda>v. ''{}''),
      JSON_parse = (\<lambda>s. if s = ''{}'' then Some (JObject []) else None),
      fetch = (\<lambda>r. Responded 200 (Some ''ok''))\<rparr>"

text \<open>
  A plain browser in which the \<open>uiReady\<close> call fails on the network and every other call
  is answered with status 500.
\<close>

definition failing_host :: environment where
  "failing_host =
     \<lparr>GetParentResourceName = None,
      JSON_stringify = (\<lambda>v. ''{}''),
      JSON_parse = (\<lambda>s. if s = ''{}'' then Some (JObject []) else None),
      fetch = (\<lambda>r. if url r = ''https://inkwell-react-template/uiReady''
                     then Rejected (JsTypeError ''Failed to fetch'')
                     else Responded 500 (Some ''{}''))\<rparr>"

section \<open>Properties of the message bridge\<close>

lemmas bridge_defs = sendMessage_def build_request_def eventName_of_def resourceName_of_def
  fresh_response_def response_ok_def response_json_def response_text_def unusable_def read_all_def

lemma sendMessage_resolves: "\<exists>v. outcome (sendMessage env event data0) = Inr v"
  by (simp add: sendMessage_def Let_def split: fetch_outcome.split prod.split sum.split)

text \<open>
  C9: calling \<open>useNui\<close> where no provider supplies the context raises the error at once
  instead of returning a default; inside a provider it returns the context. A hook that
  starts with \<open>useNui()\<close>, as \<open>useRateLimit\<close> does, fails the same way.
\<close>

theorem useNui_fails_fast:
  "useNui None = Inl (JsError ''useNui must be used within NuiProvider'')
   \<and> (\<forall>c. useNui (Some c) = Inr c)
   \<and> (\<forall>context. isl (useNui context) = (context = None))
   \<and> useRateLimit None stamps responses n =
       Inl (JsError ''useNui must be used within NuiProvider'')"
  by (simp add: useNui_def useRateLimit_def split: option.split)

text \<open>
  C10: every call of \<open>sendMessage\<close> hands exactly one request to \<open>fetch\<close>, and its URL is
  \<open>https://{resourceName}/{event}\<close>: the resource name is what
  \<open>window.GetParentResourceName()\<close> returns when that function is defined and
  \<open>inkwell-react-template\<close> otherwise; the event is the argument when it is a string and
  \<open>unknownEvent\<close> otherwise.
\<close>

theorem sendMessage_url:
  "map url (fetched (sendMessage env event data0)) =
     [''https://''
      @ (case GetParentResourceName env of Some n \<Rightarrow> n | None \<Rightarrow> ''inkwell-react-template'')
      @ ''/''
      @ (case event of JString s \<Rightarrow> s | _ \<Rightarrow> ''unknownEvent'')]"
  by (simp add: sendMessage_def Let_def build_request_def resourceName_of_def eventName_of_def
      split: fetch_outcome.split prod.split sum.split)

text \<open>
  C7: \<open>sendMessage\<close> never rejects, whatever the event, the payload and the platform do;
  when \<open>fetch\<close> rejects, or resolves with a status outside 200..299, it resolves with
  \<open>null\<close>.
\<close>

theorem sendMessage_never_throws:
  "\<not> isl (outcome (sendMessage env event data0))
   \<and> ((\<exists>err. fetch env (build_request env event data0) = Rejected err)
        \<or> (\<exists>s b. fetch env (build_request env event data0) = Responded s b
              \<and> \<not> (200 \<le> s \<and> s \<le> 299))
       \<longrightarrow> outcome (sendMessage env event data0) = Inr JNull)"
  by (auto simp add: sendMessage_def Let_def response_ok_def fresh_response_def
      split: fetch_outcome.split prod.split sum.split)

text \<open>
  C7, at concrete inputs: a rejected \<open>fetch\<close> (\<open>uiReady\<close>) and a response with status 500
  (\<open>hideFrame\<close>) both resolve with \<open>null\<close>.
\<close>

theorem sendMessage_never_throws_witness:
  "outcome (sendMessage failing_host (JString ''uiReady'') JUndefined) = Inr JNull
   \<and> outcome (sendMessage failing_host (JString ''hideFrame'') JUndefined) = Inr JNull"
  using sendMessage_never_throws [of failing_host "JString ''uiReady''" JUndefined]
    sendMessage_never_throws [of failing_host "JString ''hideFrame''" JUndefined]
  by (simp add: failing_host_def build_request_def eventName_of_def resourceName_of_def)

text \<open>A successful response whose body parses as JSON: the parsed value is returned.\<close>

lemma sendMessage_json_parsed:
  "fetch env (build_request env event data0) = Responded s b \<Longrightarrow> 200 \<le> s \<Longrightarrow> s \<le> 299 \<Longrightarrow>
   JSON_parse env (case b of None \<Rightarrow> [] | Some t \<Rightarrow> t) = Some v \<Longrightarrow>
   outcome (sendMessage env event data0) = Inr v"
  by (simp add: sendMessage_def Let_def response_ok_def fresh_response_def response_json_def
      unusable_def read_all_def)

text \<open>
  A successful response with a body that does not parse: \<open>resp.json()\<close> has read the
  body, so \<open>resp.text()\<close> rejects, the outer \<open>catch\<close> takes over, and the result is \<open>null\<close>.
\<close>

lemma sendMessage_unparsable_body:
  "fetch env (build_request env event data0) = Responded s (Some t) \<Longrightarrow> 200 \<le> s \<Longrightarrow>
   s \<le> 299 \<Longrightarrow> JSON_parse env t = None \<Longrightarrow>
   outcome (sendMessage env event data0) = Inr JNull
   \<and> logged (sendMessage env event data0) =
       [ErrorSending (eventName_of event) (JsTypeError ''body stream already read'')]"
  by (simp add: sendMessage_def Let_def response_ok_def fresh_response_def response_json_def
      response_text_def unusable_def read_all_def)

text \<open>Only a response without a body reaches the text fallback: it yields the empty text.\<close>

lemma sendMessage_null_body:
  "fetch env (build_request env event data0) = Responded s None \<Longrightarrow> 200 \<le> s \<Longrightarrow>
   s \<le> 299 \<Longrightarrow> JSON_parse env [] = None \<Longrightarrow>
   outcome (sendMessage env event data0) = Inr (JString [])"
  by (simp add: sendMessage_def Let_def response_ok_def fresh_response_def response_json_def
      response_text_def unusable_def read_all_def)

text \<open>
  C8, where the code departs from it: the host answers \<open>checkRateLimit\<close> with status 200
  and the body \<open>ok\<close>. The claim has \<open>sendMessage\<close> return the raw text \<open>ok\<close>; the code
  logs the \<open>TypeError\<close> of the second read and returns \<open>null\<close>.
\<close>

theorem sendMessage_text_fallback_yields_null:
  "sendMessage text_host (JString ''checkRateLimit'') (JObject []) =
     \<lparr>outcome = Inr JNull,
      fetched = [\<lparr>url = ''https://my-resource/checkRateLimit'', http_method = ''POST'',
                  headers = [(''Content-Type'', ''application/json; charset=UTF-8'')],
                  body = ''{}''\<rparr>],
      logged = [ErrorSending ''checkRateLimit'' (JsTypeError ''body stream already read'')]\<rparr>"
  by (simp add: text_host_def bridge_defs Let_def)

section \<open>Properties of the rate limit coordinator\<close>

subsection \<open>At most one timer\<close>

lemmas timer_defs = clearMessageTimeout_def clearTimeout_def setTimeout_def

lemma one_timer_iff:
  "one_timer st =
     (0 < next_handle st \<and>
      (timers st = [] \<or>
       (\<exists>h due. timers st = [(h, due)] \<and> messageTimeoutRef st = Some h \<and> h \<noteq> 0)))"
  by (auto simp add: one_timer_def split: list.split)

lemma one_timer_mount: "one_timer (mount stamps responses n)"
  by (simp add: one_timer_iff mount_def)

lemma showMessage_timers:
  "one_timer st \<Longrightarrow> timers (showMessage cfg now msg st) = [(next_handle st, now + messageDuration cfg)]"
  by (auto simp add: one_timer_iff showMessage_def timer_defs Let_def split: option.split)

lemma showMessage_fields:
  "rateLimitMessage (showMessage cfg now msg st) = Some msg"
  "messageTimeoutRef (showMessage cfg now msg st) = Some (next_handle st)"
  "next_handle (showMessage cfg now msg st) = Suc (next_handle st)"
  "lastActionTimes (showMessage cfg now msg st) = lastActionTimes st"
  "rateLimitResponses (showMessage cfg now msg st) = rateLimitResponses st"
  "isRateLimited (showMessage cfg now msg st) = isRateLimited st"
  "awaiting (showMessage cfg now msg st) = awaiting st"
  "trace (showMessage cfg now msg st) = trace st"
  by (simp_all add: showMessage_def timer_defs split: option.split)

lemma clearMessageTimeout_fields:
  "rateLimitMessage (clearMessageTimeout st) = rateLimitMessage st"
  "messageTimeoutRef (clearMessageTimeout st) = messageTimeoutRef st"
  "next_handle (clearMessageTimeout st) = next_handle st"
  "lastActionTimes (clearMessageTimeout st) = lastActionTimes st"
  "rateLimitResponses (clearMessageTimeout st) = rateLimitResponses st"
  "isRateLimited (clearMessageTimeout st) = isRateLimited st"
  "awaiting (clearMessageTimeout st) = awaiting st"
  "trace (clearMessageTimeout st) = trace st"
  by (simp_all add: timer_defs split: option.split)

lemma clearMessageTimeout_timers:
  "one_timer st \<Longrightarrow> timers (clearMessageTimeout st) = []"
  by (auto simp add: one_timer_iff timer_defs split: option.split)

lemma one_timer_showMessage: "one_timer st \<Longrightarrow> one_timer (showMessage cfg now msg st)"
  by (simp add: one_timer_iff showMessage_timers showMessage_fields)

lemma one_timer_cong:
  "timers st' = timers st \<Longrightarrow> messageTimeoutRef st' = messageTimeoutRef st \<Longrightarrow>
   next_handle st' = next_handle st \<Longrightarrow> one_timer st' = one_timer st"
  by (simp add: one_timer_iff)

lemma one_timer_clear: "one_timer st \<Longrightarrow> one_timer (clearMessageTimeout st)"
  by (simp add: one_timer_iff clearMessageTimeout_timers clearMessageTimeout_fields)

lemma one_timer_update:
  "one_timer (st\<lparr>isRateLimited := b\<rparr>) = one_timer st"
  "one_timer (st\<lparr>rateLimitMessage := m\<rparr>) = one_timer st"
  "one_timer (st\<lparr>lastActionTimes := l\<rparr>) = one_timer st"
  "one_timer (st\<lparr>rateLimitResponses := rs\<rparr>) = one_timer st"
  "one_timer (st\<lparr>awaiting := w\<rparr>) = one_timer st"
  "one_timer (st\<lparr>trace := tr\<rparr>) = one_timer st"
  by (simp_all add: one_timer_iff)

lemma one_timer_responseEffect: "one_timer st \<Longrightarrow> one_timer (responseEffect cfg now st)"
  by (simp add: responseEffect_def Let_def setLastActionTime_def one_timer_update
      one_timer_showMessage one_timer_clear split: option.split)

lemma one_timer_performAction: "one_timer st \<Longrightarrow> one_timer (performAction cfg f now st)"
  by (simp add: performAction_def Let_def one_timer_update one_timer_showMessage one_timer_clear)

lemma one_timer_resume: "one_timer st \<Longrightarrow> one_timer (performAction_resume k r st)"
  by (simp add: performAction_resume_def Let_def one_timer_update split: sum.split)

lemma one_timer_tick: "one_timer st \<Longrightarrow> one_timer (tick now st)"
  by (auto simp add: tick_def one_timer_iff split: if_splits)

lemma one_timer_step: "one_timer st \<Longrightarrow> one_timer (step cfg e st)"
  by (cases e) (simp_all add: one_timer_performAction one_timer_resume one_timer_responseEffect
      one_timer_tick unmount_def one_timer_clear storeResponse_def one_timer_update)

lemma one_timer_run: "one_timer st \<Longrightarrow> one_timer (run cfg es st)"
  by (induction es arbitrary: st) (simp_all add: one_timer_step)

lemma run_append: "run cfg (es @ es') st = run cfg es' (run cfg es st)"
  by (induction es arbitrary: st) simp_all

lemma one_timer_reachable: "one_timer (run cfg es (mount stamps responses n))"
  by (simp add: one_timer_run one_timer_mount)

subsection \<open>What each operation leaves alone\<close>

lemma tick_fields:
  "lastActionTimes (tick t st) = lastActionTimes st"
  "rateLimitResponses (tick t st) = rateLimitResponses st"
  "isRateLimited (tick t st) = isRateLimited st"
  "awaiting (tick t st) = awaiting st"
  "trace (tick t st) = trace st"
  "messageTimeoutRef (tick t st) = messageTimeoutRef st"
  by (simp_all add: tick_def)

lemma resume_fields:
  "lastActionTimes (performAction_resume k r st) = lastActionTimes st"
  "rateLimitResponses (performAction_resume k r st) = rateLimitResponses st"
  "isRateLimited (performAction_resume k r st) = isRateLimited st"
  "rateLimitMessage (performAction_resume k r st) = rateLimitMessage st"
  "timers (performAction_resume k r st) = timers st"
  "messageTimeoutRef (performAction_resume k r st) = messageTimeoutRef st"
  by (simp_all add: performAction_resume_def Let_def split: sum.split)

lemma storeResponse_fields:
  "lastActionTimes (storeResponse k a st) = lastActionTimes st"
  "isRateLimited (storeResponse k a st) = isRateLimited st"
  "rateLimitMessage (storeResponse k a st) = rateLimitMessage st"
  "timers (storeResponse k a st) = timers st"
  "messageTimeoutRef (storeResponse k a st) = messageTimeoutRef st"
  "awaiting (storeResponse k a st) = awaiting st"
  "trace (storeResponse k a st) = trace st"
  by (simp_all add: storeResponse_def)

lemma performAction_lastActionTimes:
  "lastActionTimes (performAction cfg f now st) = lastActionTimes st"
  by (simp add: performAction_def Let_def showMessage_fields clearMessageTimeout_fields)

lemma responseEffect_lastActionTimes:
  "lastActionTimes (responseEffect cfg now st) =
     (if rateLimitResponses st (id_hook cfg) = Some True
      then (lastActionTimes st)(id_hook cfg \<mapsto> now) else lastActionTimes st)"
  by (simp add: responseEffect_def Let_def showMessage_fields clearMessageTimeout_fields
      setLastActionTime_def split: option.split)

lemma responseEffect_outside:
  "awaiting (responseEffect cfg now st) = awaiting st"
  "trace (responseEffect cfg now st) = trace st"
  by (simp_all add: responseEffect_def Let_def showMessage_fields clearMessageTimeout_fields
      setLastActionTime_def split: option.split)

lemma step_lastActionTimes:
  "lastActionTimes (step cfg e st) =
     (case e of
        ResponseEffect now \<Rightarrow>
          if rateLimitResponses st (id_hook cfg) = Some True
          then (lastActionTimes st)(id_hook cfg \<mapsto> now) else lastActionTimes st
      | _ \<Rightarrow> lastActionTimes st)"
  by (cases e) (simp_all add: performAction_lastActionTimes resume_fields storeResponse_fields
      responseEffect_lastActionTimes tick_fields unmount_def clearMessageTimeout_fields)

lemma run_lastActionTimes_frame:
  "lastActionTimes (run cfg (filter (\<lambda>e. \<not> is_ResponseEffect e) es) st) = lastActionTimes st"
  by (induction es arbitrary: st) (simp_all add: step_lastActionTimes is_ResponseEffect_def split: event.split)

text \<open>
  The response effect depends on the whole response map (its dependency list is
  \<open>[id, rateLimitResponses, setLastActionTime]\<close>): it runs after the first render and
  again after every write to the map, whichever id the write is for, and each time it
  handles the entry of its own id as it then stands.

  C3, where the code departs from it: the host allows \<open>open_stash\<close> and the effect stamps
  at 100; then a reply for another id arrives and the effect, run again at 300, finds the
  old entry of \<open>open_stash\<close> and moves its stamp to 300, though no reply for \<open>open_stash\<close>
  has arrived since. The same happens at the first render of a hook that finds an old
  entry in the map: the effect at 9000 moves the stamp from 100 to 9000. Only the
  \<open>performAction\<close> half of the claim holds (\<open>performAction_lastActionTimes\<close>).
\<close>

theorem stale_reply_restamps:
  "lastActionTimes
     (run stash [StoreResponse ''open_stash'' True, ResponseEffect 100]
        (mount Map.empty Map.empty 0 :: nat hook_state)) ''open_stash'' = Some 100
   \<and> lastActionTimes
     (run stash [StoreResponse ''open_stash'' True, ResponseEffect 100,
                 StoreResponse ''other'' False, ResponseEffect 300]
        (mount Map.empty Map.empty 0 :: nat hook_state)) ''open_stash'' = Some 300
   \<and> lastActionTimes
     (run stash [ResponseEffect 9000]
        (mount [''open_stash'' \<mapsto> 100] [''open_stash'' \<mapsto> True] 0 :: nat hook_state))
     ''open_stash'' = Some 9000"
  by (simp add: stash_def mount_def responseEffect_def setLastActionTime_def storeResponse_def
      clearMessageTimeout_def clearTimeout_def showMessage_def setTimeout_def Let_def)

subsection \<open>The host's reply\<close>

text \<open>
  C5: in any state the hook can reach, when the response effect finds \<open>allowed = true\<close> for
  the hook's id, the rate-limited flag is cleared, the message is cleared, no timer is
  left pending, and the last action time of the id is the time of that run.
\<close>

theorem allowed_reply_clears_and_stamps:
  assumes "st = run cfg es (mount stamps responses n)"
    and "rateLimitResponses st (id_hook cfg) = Some True"
  shows "\<not> isRateLimited (responseEffect cfg now st)
    \<and> rateLimitMessage (responseEffect cfg now st) = None
    \<and> timers (responseEffect cfg now st) = []
    \<and> getLastActionTime (responseEffect cfg now st) (id_hook cfg) = Some now"
proof -
  have "one_timer st" using assms(1) by (simp add: one_timer_reachable)
  then have "one_timer (st\<lparr>isRateLimited := False, lastActionTimes := (lastActionTimes st)(id_hook cfg \<mapsto> now), rateLimitMessage := None\<rparr>)"
    by (simp add: one_timer_update)
  then have "timers (responseEffect cfg now st) = []"
    using assms(2) by (simp add: responseEffect_def setLastActionTime_def clearMessageTimeout_timers)
  then show ?thesis using assms(2)
    by (simp add: responseEffect_def setLastActionTime_def clearMessageTimeout_fields getLastActionTime_def)
qed

text \<open>
  While no code of the hook displays or clears a message, a message with its timer
  stays until the clock reaches the timer's due time, and is gone from then on.
\<close>

lemma idle_run:
  "timers st = [] \<Longrightarrow> list_all no_display es \<Longrightarrow>
   rateLimitMessage (run cfg es st) = rateLimitMessage st \<and> timers (run cfg es st) = []
   \<and> isRateLimited (run cfg es st) = isRateLimited st"
proof (induction es arbitrary: st)
  case Nil then show ?case by simp
next
  case (Cons e es)
  then have "timers (step cfg e st) = [] \<and> rateLimitMessage (step cfg e st) = rateLimitMessage st
     \<and> isRateLimited (step cfg e st) = isRateLimited st"
    by (cases e) (simp_all add: no_display_def resume_fields storeResponse_fields tick_def)
  then show ?case using Cons by simp
qed

lemma pending_run:
  "timers st = [(h, T)] \<Longrightarrow> rateLimitMessage st = Some m \<Longrightarrow> list_all no_display es \<Longrightarrow>
   rateLimitMessage (run cfg es st) = (if clock_reached T es then None else Some m)
   \<and> isRateLimited (run cfg es st) = isRateLimited st"
proof (induction es arbitrary: st)
  case Nil then show ?case by (simp add: clock_reached_def)
next
  case (Cons e es)
  show ?case
  proof (cases "\<exists>t. e = Tick t \<and> T \<le> t")
    case True
    then obtain t where e: "e = Tick t" "T \<le> t" by blast
    then have "timers (step cfg e st) = []" "rateLimitMessage (step cfg e st) = None"
       "isRateLimited (step cfg e st) = isRateLimited st"
      using Cons.prems by (simp_all add: tick_def)
    moreover have "clock_reached T (e # es)" using e by (simp add: clock_reached_def)
    ultimately show ?thesis using idle_run[of "step cfg e st" es cfg] Cons.prems by simp
  next
    case False
    then have "timers (step cfg e st) = [(h, T)] \<and> rateLimitMessage (step cfg e st) = Some m
       \<and> isRateLimited (step cfg e st) = isRateLimited st"
      using Cons.prems
      by (cases e) (auto simp add: no_display_def resume_fields storeResponse_fields tick_def)
    moreover have "clock_reached T (e # es) = clock_reached T es"
      using False by (cases e) (auto simp add: clock_reached_def)
    ultimately show ?thesis using Cons.IH[of "step cfg e st"] Cons.prems by simp
  qed
qed

lemma reachable_timers:
  "length (timers (run cfg es (mount stamps responses n))) \<le> 1"
  using one_timer_reachable [of cfg es stamps responses n] by (auto simp add: one_timer_iff)

lemma reachable_showMessage:
  "timers (showMessage cfg t msg (run cfg es (mount stamps responses n))) =
     [(next_handle (run cfg es (mount stamps responses n)), t + messageDuration cfg)]"
  by (simp add: showMessage_timers one_timer_reachable)

text \<open>
  C6: in any state the hook can reach, when the response effect finds \<open>allowed = false\<close> for
  the hook's id at time \<open>now\<close>, the rate-limited flag is set and the denial message is
  displayed; while nothing else displays or clears a message, the message is there as
  long as the clock has not reached \<open>now + messageDuration\<close> and is cleared once it has.
  Every reachable state has at most one pending timer, and displaying a message in it
  leaves exactly the new timer.
\<close>

theorem denied_reply_message_auto_clears:
  assumes "st = run cfg es (mount stamps responses n)"
    and "rateLimitResponses st (id_hook cfg) = Some False"
    and "list_all no_display es2"
  shows "isRateLimited (run cfg es2 (responseEffect cfg now st))
    \<and> rateLimitMessage (run cfg es2 (responseEffect cfg now st)) =
        (if clock_reached (now + messageDuration cfg) es2 then None
         else Some (rate_limit_text (id_hook cfg)))
    \<and> length (timers (run cfg es' (mount stamps' responses' n'))) \<le> 1
    \<and> timers (showMessage cfg t msg (run cfg es' (mount stamps' responses' n'))) =
        [(next_handle (run cfg es' (mount stamps' responses' n')), t + messageDuration cfg)]"
proof -
  have ot: "one_timer st" using assms(1) by (simp add: one_timer_reachable)
  let ?st1 = "st\<lparr>isRateLimited := True\<rparr>"
  have re: "responseEffect cfg now st = showMessage cfg now (rate_limit_text (id_hook cfg)) ?st1"
    using assms(2) by (simp add: responseEffect_def)
  have "one_timer ?st1" using ot by (simp add: one_timer_update)
  then have t: "timers (responseEffect cfg now st) = [(next_handle st, now + messageDuration cfg)]"
    by (simp add: re showMessage_timers)
  have m: "rateLimitMessage (responseEffect cfg now st) = Some (rate_limit_text (id_hook cfg))"
    and r: "isRateLimited (responseEffect cfg now st)"
    by (simp_all add: re showMessage_fields)
  show ?thesis
    using pending_run [OF t m assms(3), of cfg] r
      reachable_timers [of cfg es' stamps' responses' n']
    by (simp add: reachable_showMessage)
qed

subsection \<open>The local cooldown check\<close>

lemma performAction_denied:
  "within_cooldown (getLastActionTime st (id_hook cfg)) now (cooldown cfg) \<Longrightarrow>
   performAction cfg f now st = showMessage cfg now (rate_limit_text (id_hook cfg)) st"
  by (simp add: performAction_def)

lemma performAction_passed:
  "\<not> within_cooldown (getLastActionTime st (id_hook cfg)) now (cooldown cfg) \<Longrightarrow>
   trace (performAction cfg f now st) =
     trace st @ [HostCall ''checkRateLimit'' (checkRateLimit_payload cfg)]
   \<and> awaiting (performAction cfg f now st) = awaiting st @ [f]"
  by (simp add: performAction_def Let_def clearMessageTimeout_fields)


subsection \<open>The action runs whatever the host says\<close>

lemma host_side_run:
  "list_all host_side es \<Longrightarrow>
   trace (run cfg es st) = trace st \<and> awaiting (run cfg es st) = awaiting st"
proof (induction es arbitrary: st)
  case Nil then show ?case by simp
next
  case (Cons e es)
  then have "trace (step cfg e st) = trace st \<and> awaiting (step cfg e st) = awaiting st"
    by (cases e) (simp_all add: host_side_def storeResponse_fields responseEffect_outside
        tick_fields unmount_def clearMessageTimeout_fields)
  then show ?case using Cons by simp
qed

lemma resume_last:
  "awaiting st = w @ [f] \<Longrightarrow>
   trace (performAction_resume (length w) (Inr v) st) = trace st @ [ActionInvoked f]
   \<and> awaiting (performAction_resume (length w) (Inr v) st) = w"
  by (simp add: performAction_resume_def Let_def)

text \<open>
  C4: a call of \<open>performAction(actionFn)\<close> that passes the local check calls
  \<open>sendMessage('checkRateLimit', {actionId, cooldown})\<close> and, when that promise has
  settled, calls \<open>actionFn\<close> next: for every platform behind \<open>sendMessage\<close>, every content
  of the response map and every reply of the host that arrives in between. The host's
  reply changes neither the calls made nor the suspended calls.
\<close>

theorem actionFn_runs_regardless_of_reply:
  assumes "\<not> within_cooldown (getLastActionTime st (id_hook cfg)) now (cooldown cfg)"
    and "list_all host_side es"
  shows "trace (run cfg
           (PerformAction f now # es @
              [SendSettled (length (awaiting st))
                 (outcome (sendMessage env (JString ''checkRateLimit'')
                    (checkRateLimit_payload cfg)))]) st)
         = trace st @ [HostCall ''checkRateLimit'' (checkRateLimit_payload cfg), ActionInvoked f]"
proof -
  obtain v where v: "outcome (sendMessage env (JString ''checkRateLimit'')
      (checkRateLimit_payload cfg)) = Inr v"
    using sendMessage_resolves by blast
  let ?st1 = "performAction cfg f now st"
  let ?st2 = "run cfg es ?st1"
  have p: "trace ?st1 = trace st @ [HostCall ''checkRateLimit'' (checkRateLimit_payload cfg)]"
    "awaiting ?st1 = awaiting st @ [f]"
    using performAction_passed[OF assms(1)] by simp_all
  have h: "trace ?st2 = trace ?st1" "awaiting ?st2 = awaiting ?st1"
    using host_side_run[OF assms(2)] by simp_all
  have "trace (performAction_resume (length (awaiting st)) (Inr v) ?st2)
        = trace ?st2 @ [ActionInvoked f]"
    using resume_last[of ?st2 "awaiting st" f v] h p by simp
  then show ?thesis by (simp add: run_append v h p)
qed

subsection \<open>Two calls within the cooldown\<close>

lemma no_allowed_reply_keeps_stamps:
  "no_allowed_reply cfg es st \<Longrightarrow> lastActionTimes (run cfg es st) = lastActionTimes st"
proof (induction es arbitrary: st)
  case Nil
  then show ?case by simp
next
  case (Cons e es)
  have "lastActionTimes (step cfg e st) = lastActionTimes st"
    using Cons.prems step_lastActionTimes [of cfg e st]
    by (cases e) (simp_all del: step.simps)
  then show ?case using Cons.IH [of "step cfg e st"] Cons.prems by simp
qed

text \<open>
  C1, as amended: if \<open>performAction\<close> is called twice within \<open>cooldown\<close> milliseconds, no
  host reply with \<open>allowed = true\<close> for that id is processed between the two calls, and
  the second call is within \<open>cooldown\<close> milliseconds of the last action time of the id as
  it stood at the first call, then the second call makes no host call and leaves no
  suspended call behind.
\<close>

theorem no_second_host_call_within_cooldown_of_stamp:
  assumes "t2 - t1 < cooldown cfg"
    and "no_allowed_reply cfg es (performAction cfg f t1 st)"
    and "getLastActionTime st (id_hook cfg) = Some t0"
    and "t2 - t0 < cooldown cfg"
  shows "trace (performAction cfg g t2 (run cfg es (performAction cfg f t1 st))) =
           trace (run cfg es (performAction cfg f t1 st))
       \<and> awaiting (performAction cfg g t2 (run cfg es (performAction cfg f t1 st))) =
           awaiting (run cfg es (performAction cfg f t1 st))"
proof -
  let ?st' = "run cfg es (performAction cfg f t1 st)"
  have "lastActionTimes ?st' = lastActionTimes st"
    using no_allowed_reply_keeps_stamps [OF assms(2)]
    by (simp add: performAction_lastActionTimes)
  then have "getLastActionTime ?st' (id_hook cfg) = Some t0"
    using assms(3) by (simp add: getLastActionTime_def)
  then have "within_cooldown (getLastActionTime ?st' (id_hook cfg)) t2 (cooldown cfg)"
    using assms(4) by (simp add: within_cooldown_def)
  then show ?thesis by (simp add: performAction_denied showMessage_fields)
qed

subsection \<open>Concrete runs\<close>

lemmas eval_defs = stash_def mount_def performAction_def within_cooldown_def getLastActionTime_def
  showMessage_def clearMessageTimeout_def clearTimeout_def setTimeout_def checkRateLimit_payload_def
  rate_limit_text_def responseEffect_def setLastActionTime_def storeResponse_def tick_def unmount_def
  performAction_resume_def Let_def

lemmas run_defs = eval_defs no_display_def host_side_def clock_reached_def

text \<open>
  C1, as stated, fails: the last action of \<open>open_stash\<close> was at time 0, the cooldown is
  5000, and \<open>performAction\<close> is called at 10000 and again at 11000 with no reply of the
  host in between. The second call makes a second host call.
\<close>

theorem second_call_within_cooldown_counterexample:
  "(11000::int) - 10000 < cooldown stash
   \<and> trace (performAction stash (1::nat) 10000 (mount [''open_stash'' \<mapsto> 0] Map.empty 0)) =
       [HostCall ''checkRateLimit'' (checkRateLimit_payload stash)]
   \<and> trace (performAction stash (2::nat) 11000
        (performAction stash 1 10000 (mount [''open_stash'' \<mapsto> 0] Map.empty 0))) =
       [HostCall ''checkRateLimit'' (checkRateLimit_payload stash),
        HostCall ''checkRateLimit'' (checkRateLimit_payload stash)]"
  by (simp add: eval_defs)

text \<open>
  C1, as amended, at a concrete run: the last action of \<open>open_stash\<close> was at time 0; a
  call at 1000, then the host denies at 1200 and the clock passes 1500, then a second
  call at 2000, which makes no host call.
\<close>

theorem no_second_host_call_within_cooldown_of_stamp_witness:
  "(2000::int) - 1000 < cooldown stash
   \<and> (2000::int) - 0 < cooldown stash
   \<and> trace (performAction stash (2::nat) 2000
       (run stash [StoreResponse ''open_stash'' False, ResponseEffect 1200, Tick 1500]
          (performAction stash 1 1000 (mount [''open_stash'' \<mapsto> 0] Map.empty 0)))) = []"
  using no_second_host_call_within_cooldown_of_stamp [of 2000 1000 stash
      "[StoreResponse ''open_stash'' False, ResponseEffect 1200, Tick 1500]" "1::nat"
      "mount [''open_stash'' \<mapsto> 0] Map.empty 0" 0 "2::nat"]
  by (simp add: run_defs)


text \<open>
  C4 at a concrete run: the call at 0 passes, the host denies at 1200, the promise of
  \<open>sendMessage\<close> settles, and \<open>actionFn\<close> is called all the same.
\<close>

theorem actionFn_runs_regardless_of_reply_witness:
  "trace (run stash
     [PerformAction (1::nat) 0, StoreResponse ''open_stash'' False, ResponseEffect 1200,
      SendSettled 0 (outcome (sendMessage text_host (JString ''checkRateLimit'')
         (checkRateLimit_payload stash)))]
     (mount Map.empty Map.empty 0))
   = [HostCall ''checkRateLimit''
        (JObject [(''actionId'', JString ''open_stash''), (''cooldown'', JNumber 5000)]),
      ActionInvoked 1]"
  using actionFn_runs_regardless_of_reply [of "mount Map.empty Map.empty 0" stash 0
      "[StoreResponse ''open_stash'' False, ResponseEffect 1200]" "1::nat" text_host]
  by (simp add: run_defs)

text \<open>C5 at a concrete run: the host allows, the effect runs at 50.\<close>

theorem allowed_reply_clears_and_stamps_witness:
  "\<not> isRateLimited (responseEffect stash 50
      (run stash [PerformAction (1::nat) 0, StoreResponse ''open_stash'' True] (mount Map.empty Map.empty 0)))
   \<and> getLastActionTime (responseEffect stash 50
      (run stash [PerformAction (1::nat) 0, StoreResponse ''open_stash'' True] (mount Map.empty Map.empty 0)))
        ''open_stash'' = Some 50"
  using allowed_reply_clears_and_stamps [of "run stash [PerformAction (1::nat) 0, StoreResponse ''open_stash'' True] (mount Map.empty Map.empty 0)"
      stash "[PerformAction (1::nat) 0, StoreResponse ''open_stash'' True]" Map.empty Map.empty 0 50]
  by (simp add: run_defs)

text \<open>
  C6 at a concrete run: the host denies, the effect runs at 1200; the message is there at
  3199 and gone at 3200.
\<close>

theorem denied_reply_message_auto_clears_witness:
  "rateLimitMessage (run stash [Tick 3199]
     (responseEffect stash 1200
        (run stash [PerformAction (1::nat) 0, StoreResponse ''open_stash'' False]
           (mount Map.empty Map.empty 0)))) = Some ''Action [open_stash] is rate limited. Please wait.''
   \<and> rateLimitMessage (run stash [Tick 3199, Tick 3200]
     (responseEffect stash 1200
        (run stash [PerformAction (1::nat) 0, StoreResponse ''open_stash'' False]
           (mount Map.empty Map.empty 0)))) = None
   \<and> isRateLimited (run stash [Tick 3199]
     (responseEffect stash 1200
        (run stash [PerformAction (1::nat) 0, StoreResponse ''open_stash'' False]
           (mount Map.empty Map.empty 0))))"
  using denied_reply_message_auto_clears [of "run stash [PerformAction (1::nat) 0, StoreResponse ''open_stash'' False]
           (mount Map.empty Map.empty 0)" stash "[PerformAction (1::nat) 0, StoreResponse ''open_stash'' False]"
           Map.empty Map.empty 0 "[Tick 3199]" 1200]
    denied_reply_message_auto_clears [of "run stash [PerformAction (1::nat) 0, StoreResponse ''open_stash'' False]
           (mount Map.empty Map.empty 0)" stash "[PerformAction (1::nat) 0, StoreResponse ''open_stash'' False]"
           Map.empty Map.empty 0 "[Tick 3199, Tick 3200]" 1200]
  by (simp add: run_defs)

end
